theory Spec2Isabelle
  imports Complex_Main "HOL-Library.Monad_Syntax"
begin

section \<open>Data model\<close>

text \<open>
  The program is one script (\<^verbatim>\<open>app.py\<close>) that the web framework runs from top to bottom on
  every user interaction: it reads \<^verbatim>\<open>AED4weeks.csv\<close> into the data frame \<^verbatim>\<open>df\<close>, adds the
  derived column \<^verbatim>\<open>Breach_binary\<close>, and then executes the branch of the selected menu entry.

  A row of the data frame is a record with the columns the script names. A data frame is
  the list of its rows in index order. A numeric pandas value is a rational or NaN;
  the binary rounding error of 64-bit floats is not modelled.
\<close>

datatype pyfloat = NaN | Fin rat

datatype py_error = ValueError | IndexError | ParserError | DataFileMissing

record patient =
  ID :: string
  Age :: int
  LoS :: int
  noofinvestigation :: int
  nooftreatment :: int
  noofpatients :: int
  Breachornot :: string
  Breach_binary :: "int option"

type_synonym dataframe = "patient list"

section \<open>Series operations of pandas used by the script\<close>

text \<open>\<^verbatim>\<open>s == v\<close>, \<^verbatim>\<open>s != v\<close>, \<^verbatim>\<open>s >= v\<close>, \<^verbatim>\<open>s <= v\<close> and \<^verbatim>\<open>m1 & m2\<close> work element by element.\<close>

definition series_eq :: "'a list \<Rightarrow> 'a \<Rightarrow> bool list" where
  "series_eq s v = map (\<lambda>x. x = v) s"

definition series_ne :: "'a list \<Rightarrow> 'a \<Rightarrow> bool list" where
  "series_ne s v = map (\<lambda>x. x \<noteq> v) s"

definition series_ge :: "int list \<Rightarrow> int \<Rightarrow> bool list" where
  "series_ge s v = map (\<lambda>x. x \<ge> v) s"

definition series_le :: "int list \<Rightarrow> int \<Rightarrow> bool list" where
  "series_le s v = map (\<lambda>x. x \<le> v) s"

definition series_and :: "bool list \<Rightarrow> bool list \<Rightarrow> bool list" where
  "series_and m1 m2 = map (\<lambda>(a, b). a \<and> b) (zip m1 m2)"

text \<open>\<^verbatim>\<open>df[mask]\<close>: the rows whose mask entry is true, in index order.\<close>

definition getitem_mask :: "'r list \<Rightarrow> bool list \<Rightarrow> 'r list" where
  "getitem_mask df msk = map fst (filter snd (zip df msk))"

text \<open>\<^verbatim>\<open>Series.sum()\<close> skips missing values; the sum of no values is 0.\<close>

definition series_sum :: "int option list \<Rightarrow> pyfloat" where
  "series_sum xs = Fin (of_int (sum_list (map (\<lambda>x. case x of None \<Rightarrow> 0 | Some b \<Rightarrow> b) xs)))"

text \<open>\<^verbatim>\<open>Series.mean()\<close>, \<^verbatim>\<open>Series.min()\<close> and \<^verbatim>\<open>Series.max()\<close> of an empty series are NaN.\<close>

definition series_mean :: "int list \<Rightarrow> pyfloat" where
  "series_mean xs =
     (if xs = [] then NaN else Fin (of_int (sum_list xs) / of_nat (length xs)))"

definition series_min :: "int list \<Rightarrow> pyfloat" where
  "series_min xs = (if xs = [] then NaN else Fin (of_int (Min (set xs))))"

definition series_max :: "int list \<Rightarrow> pyfloat" where
  "series_max xs = (if xs = [] then NaN else Fin (of_int (Max (set xs))))"

text \<open>\<^verbatim>\<open>int(x)\<close> truncates towards zero and raises ValueError on NaN.\<close>

definition py_int :: "pyfloat \<Rightarrow> py_error + int" where
  "py_int x =
     (case x of
        NaN \<Rightarrow> Inl ValueError
      | Fin q \<Rightarrow> Inr (if q < 0 then - \<lfloor>- q\<rfloor> else \<lfloor>q\<rfloor>))"

text \<open>\<^verbatim>\<open>round(x, n)\<close>: to the nearest multiple of \<open>10 ^ -n\<close>, a tie to the even one; NaN stays NaN.\<close>

definition round_half_even :: "rat \<Rightarrow> int" where
  "round_half_even y =
     (let f = \<lfloor>y\<rfloor>; d = y - of_int f
      in if d < 1 / 2 then f
         else if 1 / 2 < d then f + 1
         else if even f then f else f + 1)"

definition py_round :: "pyfloat \<Rightarrow> nat \<Rightarrow> pyfloat" where
  "py_round x n =
     (case x of
        NaN \<Rightarrow> NaN
      | Fin q \<Rightarrow> Fin (of_int (round_half_even (q * 10 ^ n)) / 10 ^ n))"

section \<open>The backing file\<close>

text \<open>
  A CSV file is its header line and its data lines, each line the list of its fields.
  A field is kept as the typed value pandas reads from it and writes to it; the quoting
  of the text and the inference of column types by \<^verbatim>\<open>read_csv\<close> are not modelled, and
  the file is taken to hold the columns the script names, in the order below, with values
  of the declared types. Anything else is reported as ParserError.
\<close>

datatype cell = IntCell int | StrCell string | NaNCell

record csv_file =
  header :: "string list"
  body :: "cell list list"

definition source_columns :: "string list" where
  "source_columns =
     [''ID'', ''Age'', ''LoS'', ''noofinvestigation'', ''nooftreatment'', ''noofpatients'',
      ''Breachornot'']"

text \<open>The columns of \<^verbatim>\<open>df\<close> after line 37: the new column is appended.\<close>

definition df_columns :: "string list" where
  "df_columns = source_columns @ [''Breach_binary'']"

definition float_cell :: "int option \<Rightarrow> cell" where
  "float_cell v = (case v of None \<Rightarrow> NaNCell | Some b \<Rightarrow> IntCell b)"

definition row_cells :: "patient \<Rightarrow> cell list" where
  "row_cells r =
     [StrCell (ID r), IntCell (Age r), IntCell (LoS r), IntCell (noofinvestigation r),
      IntCell (nooftreatment r), IntCell (noofpatients r), StrCell (Breachornot r),
      float_cell (Breach_binary r)]"

text \<open>\<^verbatim>\<open>df.to_csv(path, index=False)\<close> writes every column of \<^verbatim>\<open>df\<close>, and no index.\<close>

definition to_csv :: "dataframe \<Rightarrow> csv_file" where
  "to_csv df = \<lparr>header = df_columns, body = map row_cells df\<rparr>"

definition int_cell :: "cell \<Rightarrow> int option" where
  "int_cell c = (case c of IntCell n \<Rightarrow> Some n | _ \<Rightarrow> None)"

definition str_cell :: "cell \<Rightarrow> string option" where
  "str_cell c = (case c of StrCell s \<Rightarrow> Some s | _ \<Rightarrow> None)"

definition opt_cell :: "cell \<Rightarrow> int option option" where
  "opt_cell c = (case c of IntCell n \<Rightarrow> Some (Some n) | NaNCell \<Rightarrow> Some None | _ \<Rightarrow> None)"

text \<open>
  One data line under a header of \<open>n\<close> columns. A file written by the script has the
  eighth column \<^verbatim>\<open>Breach_binary\<close>; the original file has seven columns, and the field
  \<open>Breach_binary\<close> of the record is then a placeholder until line 37 assigns the column.
\<close>

definition read_row :: "nat \<Rightarrow> cell list \<Rightarrow> patient option" where
  "read_row n cs =
     (if length cs \<noteq> n then None
      else do {
        i \<leftarrow> str_cell (cs ! 0);
        a \<leftarrow> int_cell (cs ! 1);
        l \<leftarrow> int_cell (cs ! 2);
        ni \<leftarrow> int_cell (cs ! 3);
        nt \<leftarrow> int_cell (cs ! 4);
        np \<leftarrow> int_cell (cs ! 5);
        b \<leftarrow> str_cell (cs ! 6);
        bb \<leftarrow> (if n = 8 then opt_cell (cs ! 7) else Some None);
        Some \<lparr>ID = i, Age = a, LoS = l, noofinvestigation = ni, nooftreatment = nt,
              noofpatients = np, Breachornot = b, Breach_binary = bb\<rparr>
      })"

definition read_csv :: "csv_file \<Rightarrow> py_error + dataframe" where
  "read_csv f =
     (if header f = source_columns \<or> header f = df_columns then
        (case those (map (read_row (length (header f))) (body f)) of
           None \<Rightarrow> Inl ParserError
         | Some df \<Rightarrow> Inr df)
      else Inl ParserError)"

section \<open>Files and the activity log\<close>

text \<open>
  The files the script touches. An entry of the activity log is the logged action; its
  time stamp is not modelled.
\<close>

datatype numeric_column = Age_column | LoS_column | noofinvestigation_column
  | nooftreatment_column | noofpatients_column

datatype log_entry =
    Viewed_dashboard
  | Searched_not_found string
  | Retrieved string
  | Filtered numeric_column "int \<times> int"
  | Modified string
  | Deleted string
  | Attempted_delete_not_found string

record files =
  DATA_FILE :: "csv_file option"
  temp_file :: "csv_file option"
  LOG_FILE :: "log_entry list"

definition log_action :: "log_entry \<Rightarrow> files \<Rightarrow> files" where
  "log_action action fs = fs\<lparr>LOG_FILE := LOG_FILE fs @ [action]\<rparr>"

datatype message = Warning string | Success string | Info string

section \<open>Loading (lines 30 to 40)\<close>

text \<open>The dictionary of line 37; \<^verbatim>\<open>Series.map\<close> gives NaN for a value that is not a key.\<close>

definition breach_dict :: "string \<rightharpoonup> int" where
  "breach_dict = [''non-breach'' \<mapsto> 0, ''breach'' \<mapsto> 1]"

definition add_Breach_binary :: "dataframe \<Rightarrow> dataframe" where
  "add_Breach_binary df = map (\<lambda>r. r\<lparr>Breach_binary := breach_dict (Breachornot r)\<rparr>) df"

text \<open>The script stops when the data file does not exist.\<close>

definition load :: "files \<Rightarrow> py_error + dataframe" where
  "load fs =
     (case DATA_FILE fs of
        None \<Rightarrow> Inl DataFileMissing
      | Some f \<Rightarrow>
          (case read_csv f of
             Inl e \<Rightarrow> Inl e
           | Inr df \<Rightarrow> Inr (add_Breach_binary df)))"

section \<open>Dashboard (lines 70 to 72)\<close>

record summary =
  total_count :: nat
  breach_count :: int
  mean_length_of_stay :: pyfloat

definition dashboard_metrics :: "dataframe \<Rightarrow> py_error + summary" where
  "dashboard_metrics df =
     (case py_int (series_sum (map Breach_binary df)) of
        Inl e \<Rightarrow> Inl e
      | Inr b \<Rightarrow>
          Inr \<lparr>total_count = length df,
               breach_count = b,
               mean_length_of_stay = py_round (series_mean (map LoS df)) 2\<rparr>)"

section \<open>Search patient by ID (lines 100 to 109)\<close>

definition search_result :: "string \<Rightarrow> dataframe \<Rightarrow> dataframe" where
  "search_result patient_id df = getitem_mask df (series_eq (map ID df) patient_id)"

definition search_page ::
  "string \<Rightarrow> dataframe \<Rightarrow> files \<Rightarrow> files \<times> message \<times> dataframe option" where
  "search_page patient_id df fs =
     (let result = search_result patient_id df
      in if result = [] then
           (log_action (Searched_not_found patient_id) fs,
            Warning ''No patient found with this ID.'', None)
         else
           (log_action (Retrieved patient_id) fs,
            Success ''Patient record found.'', Some result))"

section \<open>Filter patients (lines 117 to 140)\<close>

fun column_of :: "numeric_column \<Rightarrow> patient \<Rightarrow> int" where
  "column_of Age_column = Age"
| "column_of LoS_column = LoS"
| "column_of noofinvestigation_column = noofinvestigation"
| "column_of nooftreatment_column = nooftreatment"
| "column_of noofpatients_column = noofpatients"

text \<open>Lines 132 to 135.\<close>

definition filtered_df :: "numeric_column \<Rightarrow> int \<times> int \<Rightarrow> dataframe \<Rightarrow> dataframe" where
  "filtered_df column selected_range df =
     getitem_mask df
       (series_and (series_ge (map (column_of column) df) (fst selected_range))
                   (series_le (map (column_of column) df) (snd selected_range)))"

text \<open>
  The whole page: the bounds of the slider are computed first (lines 124 and 125), and
  \<^verbatim>\<open>int\<close> of the NaN that an empty column gives raises. \<open>selected_range\<close> is the pair the
  user chooses on the slider.
\<close>

definition filter_page ::
  "numeric_column \<Rightarrow> int \<times> int \<Rightarrow> dataframe \<Rightarrow> files \<Rightarrow> py_error + files \<times> dataframe" where
  "filter_page column selected_range df fs =
     (case py_int (series_min (map (column_of column) df)) of
        Inl e \<Rightarrow> Inl e
      | Inr min_val \<Rightarrow>
          (case py_int (series_max (map (column_of column) df)) of
             Inl e \<Rightarrow> Inl e
           | Inr max_val \<Rightarrow>
               Inr (log_action (Filtered column selected_range) fs,
                    filtered_df column selected_range df)))"

section \<open>Modify patient data (lines 145 to 192)\<close>

text \<open>\<^verbatim>\<open>x.iloc[0]\<close> and \<^verbatim>\<open>df.index[mask][0]\<close> raise IndexError when nothing is selected.\<close>

definition iloc0 :: "'r list \<Rightarrow> py_error + 'r" where
  "iloc0 xs = (case xs of [] \<Rightarrow> Inl IndexError | x # _ \<Rightarrow> Inr x)"

fun first_true :: "bool list \<Rightarrow> nat option" where
  "first_true [] = None"
| "first_true (b # bs) = (if b then Some 0 else map_option Suc (first_true bs))"

definition first_label :: "bool list \<Rightarrow> py_error + nat" where
  "first_label msk = (case first_true msk of None \<Rightarrow> Inl IndexError | Some i \<Rightarrow> Inr i)"

text \<open>\<^verbatim>\<open>df.at[row_index, column] = value\<close>, for a label that exists.\<close>

definition at_set :: "dataframe \<Rightarrow> nat \<Rightarrow> (patient \<Rightarrow> patient) \<Rightarrow> dataframe" where
  "at_set df row_index assign = df[row_index := assign (df ! row_index)]"

text \<open>The values of the form when the button is pressed.\<close>

record form =
  age :: int
  los :: int
  investigations :: int
  treatments :: int
  breach :: string

text \<open>Lines 174 to 181.\<close>

definition update_record :: "string \<Rightarrow> form \<Rightarrow> dataframe \<Rightarrow> py_error + dataframe" where
  "update_record patient_id f df =
     (case first_label (series_eq (map ID df) patient_id) of
        Inl e \<Rightarrow> Inl e
      | Inr row_index \<Rightarrow>
          (let df1 = at_set df row_index (\<lambda>r. r\<lparr>Age := age f\<rparr>);
               df2 = at_set df1 row_index (\<lambda>r. r\<lparr>LoS := los f\<rparr>);
               df3 = at_set df2 row_index (\<lambda>r. r\<lparr>noofinvestigation := investigations f\<rparr>);
               df4 = at_set df3 row_index (\<lambda>r. r\<lparr>nooftreatment := treatments f\<rparr>);
               df5 = at_set df4 row_index (\<lambda>r. r\<lparr>Breachornot := breach f\<rparr>)
           in Inr df5))"

text \<open>Lines 184 to 186: write the temporary file, then move it over the data file.\<close>

definition os_replace_temp :: "files \<Rightarrow> files" where
  "os_replace_temp fs = fs\<lparr>DATA_FILE := temp_file fs, temp_file := None\<rparr>"

definition save_safely :: "dataframe \<Rightarrow> files \<Rightarrow> files" where
  "save_safely df fs = os_replace_temp (fs\<lparr>temp_file := Some (to_csv df)\<rparr>)"

text \<open>
  The page; \<open>clicked\<close> holds the form's values when the button "Update Record" is
  pressed in this run.
\<close>

definition modify_page ::
  "string \<Rightarrow> form option \<Rightarrow> dataframe \<Rightarrow> files
     \<Rightarrow> py_error + dataframe \<times> files \<times> message option" where
  "modify_page patient_id clicked df fs =
     (if patient_id \<in> set (map ID df) then
        (case iloc0 (search_result patient_id df) of
           Inl e \<Rightarrow> Inl e
         | Inr patient \<Rightarrow>
             (case clicked of
                None \<Rightarrow> Inr (df, fs, None)
              | Some f \<Rightarrow>
                  (case update_record patient_id f df of
                     Inl e \<Rightarrow> Inl e
                   | Inr df' \<Rightarrow>
                       Inr (df', log_action (Modified patient_id) (save_safely df' fs),
                            Some (Success ''Patient record updated successfully.'')))))
      else Inr (df, fs, Some (Info ''Enter a valid Patient ID to modify.'')))"

section \<open>Delete patient data (lines 201 to 214)\<close>

text \<open>The page when the button "Delete" is pressed; \<open>confirm\<close> is the check box.\<close>

definition delete_page ::
  "string \<Rightarrow> bool \<Rightarrow> dataframe \<Rightarrow> files \<Rightarrow> dataframe \<times> files \<times> message" where
  "delete_page patient_id confirm df fs =
     (if \<not> confirm then
        (df, fs, Warning ''Please confirm deletion before proceeding.'')
      else if patient_id \<in> set (map ID df) then
        (let df' = getitem_mask df (series_ne (map ID df) patient_id);
             fs' = fs\<lparr>DATA_FILE := Some (to_csv df')\<rparr>
         in (df', log_action (Deleted patient_id) fs',
             Success ''Patient record deleted successfully.''))
      else
        (df, log_action (Attempted_delete_not_found patient_id) fs,
         Warning ''Patient ID not found.''))"

section \<open>Example data\<close>

definition example_patient :: "string \<Rightarrow> int \<Rightarrow> int \<Rightarrow> string \<Rightarrow> patient" where
  "example_patient i a l b =
     \<lparr>ID = i, Age = a, LoS = l, noofinvestigation = 2, nooftreatment = 1, noofpatients = 5,
      Breachornot = b, Breach_binary = None\<rparr>"

definition example_source_file :: csv_file where
  "example_source_file =
     \<lparr>header = source_columns,
      body = [[StrCell ''P1'', IntCell 40, IntCell 10, IntCell 2, IntCell 1, IntCell 5,
               StrCell ''non-breach'']]\<rparr>"

definition example_fs :: files where
  "example_fs = \<lparr>DATA_FILE = Some example_source_file, temp_file = None, LOG_FILE = []\<rparr>"

definition example_loaded :: dataframe where
  "example_loaded = [(example_patient ''P1'' 40 10 ''non-breach'')\<lparr>Breach_binary := Some 0\<rparr>]"

definition example_form :: form where
  "example_form = \<lparr>age = 41, los = 250, investigations = 3, treatments = 2, breach = ''breach''\<rparr>"

definition example_stale :: dataframe where
  "example_stale =
     [\<lparr>ID = ''P1'', Age = 41, LoS = 250, noofinvestigation = 3, nooftreatment = 2,
       noofpatients = 5, Breachornot = ''breach'', Breach_binary = Some 0\<rparr>]"

definition example_table :: dataframe where
  "example_table =
     add_Breach_binary
       [example_patient ''P2'' 50 20 ''breach'', example_patient ''P1'' 40 10 ''non-breach'',
        example_patient ''P2'' 60 30 ''breach'']"

section \<open>Facts about the series operations\<close>

lemma getitem_mask_map: "getitem_mask df (map P df) = filter P df"
  by (induction df) (simp_all add: getitem_mask_def)





lemma first_true_map_Some:
  "first_true (map P xs) = Some i \<Longrightarrow> i < length xs \<and> P (xs ! i) \<and> (\<forall>j<i. \<not> P (xs ! j))"
proof (induction xs arbitrary: i)
  case Nil
  then show ?case by simp
next
  case (Cons x xs)
  show ?case
  proof (cases "P x")
    case True
    with Cons.prems show ?thesis by simp
  next
    case False
    with Cons.prems obtain k where k: "first_true (map P xs) = Some k" "i = Suc k"
      by auto
    from Cons.IH[OF k(1)] False k(2) show ?thesis
      by (auto simp: nth_Cons split: nat.splits)
  qed
qed

lemma first_true_map_ex:
  "\<exists>x\<in>set xs. P x \<Longrightarrow> \<exists>i. first_true (map P xs) = Some i"
  by (induction xs) auto

lemma delete_mask: "getitem_mask df (series_ne (map ID df) patient_id) = filter (\<lambda>r. ID r \<noteq> patient_id) df"
  using getitem_mask_map[of df "\<lambda>r. ID r \<noteq> patient_id"]
  by (simp add: series_ne_def comp_def)

lemma search_result_filter: "search_result patient_id df = filter (\<lambda>r. ID r = patient_id) df"
  using getitem_mask_map[of df "\<lambda>r. ID r = patient_id"]
  by (simp add: search_result_def series_eq_def comp_def)

lemma iloc0_filter: "iloc0 (filter P xs) = (case find P xs of None \<Rightarrow> Inl IndexError | Some r \<Rightarrow> Inr r)"
  by (induction xs) (simp_all add: iloc0_def)

section \<open>Dashboard\<close>





text \<open>
  C9. On a data frame with no rows the metrics are computed without an exception: the
  counts are 0 and the mean is the value NaN (pandas divides only when there are rows).
\<close>

theorem dashboard_metrics_empty:
  "dashboard_metrics [] =
     Inr \<lparr>total_count = 0, breach_count = 0, mean_length_of_stay = NaN\<rparr>"
  by (simp add: dashboard_metrics_def py_int_def series_sum_def series_mean_def py_round_def)

section \<open>Filter\<close>


lemma filter_page_empty: "filter_page column selected_range [] fs = Inl ValueError"
  by (simp add: filter_page_def series_min_def py_int_def)

lemma filter_page_nonempty:
  "df \<noteq> [] \<Longrightarrow>
   filter_page column selected_range df fs =
     Inr (log_action (Filtered column selected_range) fs, filtered_df column selected_range df)"
  by (simp add: filter_page_def series_min_def series_max_def py_int_def)

section \<open>Search\<close>

text \<open>
  C7 (as amended). The comparison is equality of strings. The search returns every row
  whose \<open>ID\<close> equals the input, in the order of the data frame, and nothing when no row
  has it; the look-up of the modify page takes the first of these rows.
\<close>

theorem search_result_exact:
  "search_result patient_id df = filter (\<lambda>r. ID r = patient_id) df \<and>
   snd (snd (search_page patient_id df fs)) =
     (if patient_id \<in> set (map ID df) then Some (filter (\<lambda>r. ID r = patient_id) df) else None) \<and>
   iloc0 (search_result patient_id df) =
     (case find (\<lambda>r. ID r = patient_id) df of None \<Rightarrow> Inl IndexError | Some r \<Rightarrow> Inr r)"
proof -
  have "filter (\<lambda>r. ID r = patient_id) df = [] \<longleftrightarrow> patient_id \<notin> set (map ID df)"
    by (auto simp: filter_empty_conv)
  then show ?thesis
    by (simp add: search_result_filter search_page_def Let_def iloc0_filter)
qed

text \<open>
  C7 as stated fails on the search page: with two rows of the same \<open>ID\<close> the result shown
  holds both rows, not the first one only.
\<close>

theorem search_page_counterexample:
  "snd (snd (search_page ''P2'' example_table example_fs)) =
     Some [(example_patient ''P2'' 50 20 ''breach'')\<lparr>Breach_binary := Some 1\<rparr>,
           (example_patient ''P2'' 60 30 ''breach'')\<lparr>Breach_binary := Some 1\<rparr>] \<and>
   (example_patient ''P2'' 50 20 ''breach'')\<lparr>Breach_binary := Some 1\<rparr> \<noteq>
   (example_patient ''P2'' 60 30 ''breach'')\<lparr>Breach_binary := Some 1\<rparr>"
  by (simp add: search_page_def search_result_filter example_table_def add_Breach_binary_def
      example_patient_def breach_dict_def Let_def)

section \<open>Modify\<close>

lemma update_record_value:
  assumes "first_true (map (\<lambda>r. ID r = patient_id) df) = Some i"
  shows "update_record patient_id f df =
     Inr (df[i := (df ! i)\<lparr>Age := age f, LoS := los f, noofinvestigation := investigations f,
                          nooftreatment := treatments f, Breachornot := breach f\<rparr>])"
proof -
  have i: "i < length df"
    using first_true_map_Some[OF assms] by simp
  have "first_label (series_eq (map ID df) patient_id) = Inr i"
    using assms by (simp add: first_label_def series_eq_def comp_def)
  then show ?thesis
    using i by (simp add: update_record_def at_set_def Let_def)
qed

text \<open>
  C4. When some row has the given \<open>ID\<close>, the update succeeds and changes the first such
  row only: every other row is as before, and in the changed row the five fields \<open>Age\<close>,
  \<open>LoS\<close>, \<open>noofinvestigation\<close>, \<open>nooftreatment\<close> and \<open>Breachornot\<close> take the values of the
  form while \<open>ID\<close>, \<open>noofpatients\<close> and \<open>Breach_binary\<close> keep theirs. The page returns this
  data frame.
\<close>

theorem update_record_scoped:
  assumes "patient_id \<in> set (map ID df)"
  shows "\<exists>i df'. update_record patient_id f df = Inr df' \<and>
     modify_page patient_id (Some f) df fs =
       Inr (df', log_action (Modified patient_id) (save_safely df' fs),
            Some (Success ''Patient record updated successfully.'')) \<and>
     i < length df \<and> ID (df ! i) = patient_id \<and> (\<forall>j<i. ID (df ! j) \<noteq> patient_id) \<and>
     length df' = length df \<and> (\<forall>j<length df. j \<noteq> i \<longrightarrow> df' ! j = df ! j) \<and>
     df' ! i = (df ! i)\<lparr>Age := age f, LoS := los f, noofinvestigation := investigations f,
                        nooftreatment := treatments f, Breachornot := breach f\<rparr> \<and>
     ID (df' ! i) = ID (df ! i) \<and> noofpatients (df' ! i) = noofpatients (df ! i) \<and>
     Breach_binary (df' ! i) = Breach_binary (df ! i)"
proof -
  from assms have "\<exists>r\<in>set df. ID r = patient_id"
    by auto
  then obtain i where i: "first_true (map (\<lambda>r. ID r = patient_id) df) = Some i"
    using first_true_map_ex[of df "\<lambda>r. ID r = patient_id"] by blast
  define df' where
    "df' = df[i := (df ! i)\<lparr>Age := age f, LoS := los f, noofinvestigation := investigations f,
                           nooftreatment := treatments f, Breachornot := breach f\<rparr>]"
  have upd: "update_record patient_id f df = Inr df'"
    unfolding df'_def by (rule update_record_value[OF i])
  have pos: "i < length df" "ID (df ! i) = patient_id" "\<forall>j<i. ID (df ! j) \<noteq> patient_id"
    using first_true_map_Some[OF i] by simp_all
  have nonempty: "search_result patient_id df \<noteq> []"
    using assms by (auto simp: search_result_filter filter_empty_conv)
  then obtain p ps where "search_result patient_id df = p # ps"
    by (cases "search_result patient_id df") auto
  then have page: "modify_page patient_id (Some f) df fs =
       Inr (df', log_action (Modified patient_id) (save_safely df' fs),
            Some (Success ''Patient record updated successfully.''))"
    using assms upd by (simp add: modify_page_def iloc0_def)
  have len: "length df' = length df"
    by (simp add: df'_def)
  have others: "\<forall>j<length df. j \<noteq> i \<longrightarrow> df' ! j = df ! j"
    by (simp add: df'_def)
  have row: "df' ! i = (df ! i)\<lparr>Age := age f, LoS := los f, noofinvestigation := investigations f,
                        nooftreatment := treatments f, Breachornot := breach f\<rparr>"
    using pos(1) by (simp add: df'_def)
  have kept: "ID (df' ! i) = ID (df ! i)" "noofpatients (df' ! i) = noofpatients (df ! i)"
     "Breach_binary (df' ! i) = Breach_binary (df ! i)"
    by (simp_all add: row)
  from upd page pos len others row kept show ?thesis
    by blast
qed

theorem update_record_scoped_witness:
  "''P2'' \<in> set (map ID example_table) \<and>
   update_record ''P2'' example_form example_table =
     Inr [\<lparr>ID = ''P2'', Age = 41, LoS = 250, noofinvestigation = 3, nooftreatment = 2,
           noofpatients = 5, Breachornot = ''breach'', Breach_binary = Some 1\<rparr>,
          (example_patient ''P1'' 40 10 ''non-breach'')\<lparr>Breach_binary := Some 0\<rparr>,
          (example_patient ''P2'' 60 30 ''breach'')\<lparr>Breach_binary := Some 1\<rparr>]"
proof -
  have m: "''P2'' \<in> set (map ID example_table)"
    by (simp add: example_table_def add_Breach_binary_def example_patient_def)
  from update_record_scoped[OF m, of example_form example_fs]
  obtain i df' where u: "update_record ''P2'' example_form example_table = Inr df'"
    and i: "i < length example_table" "ID (example_table ! i) = ''P2''"
      "\<forall>j<i. ID (example_table ! j) \<noteq> ''P2''"
    and len: "length df' = length example_table"
    and others: "\<forall>j<length example_table. j \<noteq> i \<longrightarrow> df' ! j = example_table ! j"
    and row: "df' ! i = (example_table ! i)\<lparr>Age := age example_form, LoS := los example_form,
         noofinvestigation := investigations example_form,
         nooftreatment := treatments example_form, Breachornot := breach example_form\<rparr>"
    by blast
  have i0: "i = 0"
  proof (rule ccontr)
    assume "i \<noteq> 0"
    then have "0 < i" by simp
    with i(3) have "ID (example_table ! 0) \<noteq> ''P2''" by blast
    then show False
      by (simp add: example_table_def add_Breach_binary_def example_patient_def)
  qed
  have l3: "length df' = 3"
    using len by (simp add: example_table_def add_Breach_binary_def)
  have "df' ! 1 = example_table ! 1" "df' ! 2 = example_table ! 2"
    using others i0 by (simp_all add: example_table_def add_Breach_binary_def)
  with row i0 l3 have "df' = [(example_table ! 0)\<lparr>Age := age example_form, LoS := los example_form,
         noofinvestigation := investigations example_form,
         nooftreatment := treatments example_form, Breachornot := breach example_form\<rparr>,
       example_table ! 1, example_table ! 2]"
    by (cases df'; simp; cases "tl df'"; simp; cases "tl (tl df')"; simp)
  then have "df' = [\<lparr>ID = ''P2'', Age = 41, LoS = 250, noofinvestigation = 3, nooftreatment = 2,
           noofpatients = 5, Breachornot = ''breach'', Breach_binary = Some 1\<rparr>,
          (example_patient ''P1'' 40 10 ''non-breach'')\<lparr>Breach_binary := Some 0\<rparr>,
          (example_patient ''P2'' 60 30 ''breach'')\<lparr>Breach_binary := Some 1\<rparr>]"
    by (simp add: example_table_def add_Breach_binary_def example_patient_def example_form_def
        breach_dict_def)
  with u m show ?thesis
    by simp
qed

section \<open>Delete\<close>

lemma delete_page_True:
  "delete_page patient_id True df fs =
     (if patient_id \<in> set (map ID df) then
        (filter (\<lambda>r. ID r \<noteq> patient_id) df,
         log_action (Deleted patient_id)
           (fs\<lparr>DATA_FILE := Some (to_csv (filter (\<lambda>r. ID r \<noteq> patient_id) df))\<rparr>),
         Success ''Patient record deleted successfully.'')
      else
        (df, log_action (Attempted_delete_not_found patient_id) fs,
         Warning ''Patient ID not found.''))"
  by (simp add: delete_page_def delete_mask Let_def)



text \<open>
  C8. Without the confirmation the page only warns: the data frame and every file are
  as before, whether or not a row has the given \<open>ID\<close>.
\<close>

theorem delete_page_unconfirmed:
  "delete_page patient_id False df fs =
     (df, fs, Warning ''Please confirm deletion before proceeding.'')"
  by (simp add: delete_page_def)

text \<open>
  C10. The rows whose \<open>ID\<close> differs from the given one are, as a list, the same before and
  after the deletion: their order and each of their fields are kept.
\<close>

theorem delete_page_keeps_other_rows:
  "fst (delete_page patient_id confirm df fs) =
     (if confirm \<and> patient_id \<in> set (map ID df) then filter (\<lambda>r. ID r \<noteq> patient_id) df else df) \<and>
   filter (\<lambda>r. ID r \<noteq> patient_id) (fst (delete_page patient_id confirm df fs)) =
     filter (\<lambda>r. ID r \<noteq> patient_id) df"
  by (simp add: delete_page_def delete_mask Let_def)

section \<open>Saving and loading\<close>

lemma those_map_Some: "those (map Some xs) = Some xs"
  by (induction xs) simp_all

lemma read_row_row_cells: "read_row 8 (row_cells r) = Some r"
  by (cases "Breach_binary r")
     (simp_all add: read_row_def row_cells_def str_cell_def int_cell_def opt_cell_def float_cell_def)

lemma read_csv_to_csv: "read_csv (to_csv df) = Inr df"
proof -
  have "map (read_row 8) (map row_cells df) = map Some df"
    by (simp add: read_row_row_cells comp_def)
  then have "those (map (read_row 8) (map row_cells df)) = Some df"
    by (simp only: those_map_Some)
  moreover have "header (to_csv df) = df_columns" "body (to_csv df) = map row_cells df"
    by (simp_all add: to_csv_def)
  moreover have "length df_columns = 8"
    by (simp add: df_columns_def source_columns_def)
  ultimately show ?thesis
    unfolding read_csv_def by simp
qed

lemma DATA_FILE_save_safely: "DATA_FILE (save_safely df fs) = Some (to_csv df)"
  by (simp add: save_safely_def os_replace_temp_def)

lemma load_to_csv: "DATA_FILE fs = Some (to_csv df) \<Longrightarrow> load fs = Inr (add_Breach_binary df)"
  by (simp add: load_def read_csv_to_csv)






lemma load_mirrors: "load fs = Inr df \<Longrightarrow> \<forall>r\<in>set df. Breach_binary r = breach_dict (Breachornot r)"
  by (auto simp add: load_def add_Breach_binary_def split: option.splits sum.splits)

lemma modify_page_saved:
  assumes "patient_id \<in> set (map ID df)"
  shows "\<exists>df' fs'. modify_page patient_id (Some f) df fs =
            Inr (df', fs', Some (Success ''Patient record updated successfully.'')) \<and>
          DATA_FILE fs' = Some (to_csv df')"
proof -
  from assms have "\<exists>r\<in>set df. ID r = patient_id"
    by auto
  then obtain i where i: "first_true (map (\<lambda>r. ID r = patient_id) df) = Some i"
    using first_true_map_ex[of df "\<lambda>r. ID r = patient_id"] by blast
  obtain df' where upd: "update_record patient_id f df = Inr df'"
    using update_record_value[OF i] by blast
  have "search_result patient_id df \<noteq> []"
    using assms by (auto simp: search_result_filter filter_empty_conv)
  then obtain p ps where "search_result patient_id df = p # ps"
    by (cases "search_result patient_id df") auto
  then have "modify_page patient_id (Some f) df fs =
       Inr (df', log_action (Modified patient_id) (save_safely df' fs),
            Some (Success ''Patient record updated successfully.''))"
    using assms upd by (simp add: modify_page_def iloc0_def)
  moreover have "DATA_FILE (log_action (Modified patient_id) (save_safely df' fs)) =
      Some (to_csv df')"
    by (simp add: log_action_def DATA_FILE_save_safely)
  ultimately show ?thesis
    by blast
qed

lemma example_load: "load example_fs = Inr example_loaded"
  by (simp add: load_def example_fs_def example_source_file_def read_csv_def source_columns_def
      df_columns_def read_row_def str_cell_def int_cell_def add_Breach_binary_def breach_dict_def
      example_loaded_def example_patient_def)

lemma example_modify:
  "modify_page ''P1'' (Some example_form) example_loaded example_fs =
     Inr (example_stale, log_action (Modified ''P1'') (save_safely example_stale example_fs),
          Some (Success ''Patient record updated successfully.''))"
  by (simp add: modify_page_def example_loaded_def example_patient_def search_result_filter
      iloc0_def update_record_def first_label_def series_eq_def at_set_def example_form_def
      example_stale_def)

text \<open>
  C5 (as amended). \<open>Breach_binary\<close> is computed when the file is loaded, and it is written
  to the data file: the file that the update or the deletion writes has the seven source
  columns followed by a column \<open>Breach_binary\<close> holding the values of the data frame; the
  next load computes the column again from \<open>Breachornot\<close>.
\<close>

theorem persist_writes_all_columns:
  "(load fs0 = Inr df0 \<longrightarrow> (\<forall>r\<in>set df0. Breach_binary r = breach_dict (Breachornot r))) \<and>
   header (to_csv df) = source_columns @ [''Breach_binary''] \<and>
   map (\<lambda>cs. cs ! 7) (body (to_csv df)) = map (\<lambda>r. float_cell (Breach_binary r)) df \<and>
   load (fs\<lparr>DATA_FILE := Some (to_csv df)\<rparr>) = Inr (add_Breach_binary df) \<and>
   (patient_id \<in> set (map ID df) \<longrightarrow>
      DATA_FILE (fst (snd (delete_page patient_id True df fs))) =
        Some (to_csv (fst (delete_page patient_id True df fs))) \<and>
      (\<exists>df' fs'. modify_page patient_id (Some f) df fs =
            Inr (df', fs', Some (Success ''Patient record updated successfully.'')) \<and>
          DATA_FILE fs' = Some (to_csv df')))"
proof (intro conjI impI)
  assume "load fs0 = Inr df0"
  then show "\<forall>r\<in>set df0. Breach_binary r = breach_dict (Breachornot r)"
    by (rule load_mirrors)
next
  show "header (to_csv df) = source_columns @ [''Breach_binary'']"
    by (simp add: to_csv_def df_columns_def)
next
  show "map (\<lambda>cs. cs ! 7) (body (to_csv df)) = map (\<lambda>r. float_cell (Breach_binary r)) df"
    by (simp add: to_csv_def row_cells_def comp_def)
next
  show "load (fs\<lparr>DATA_FILE := Some (to_csv df)\<rparr>) = Inr (add_Breach_binary df)"
    by (rule load_to_csv) simp
next
  assume "patient_id \<in> set (map ID df)"
  then show "DATA_FILE (fst (snd (delete_page patient_id True df fs))) =
        Some (to_csv (fst (delete_page patient_id True df fs)))"
    by (simp add: delete_page_True log_action_def)
next
  assume "patient_id \<in> set (map ID df)"
  then show "\<exists>df' fs'. modify_page patient_id (Some f) df fs =
            Inr (df', fs', Some (Success ''Patient record updated successfully.'')) \<and>
          DATA_FILE fs' = Some (to_csv df')"
    by (rule modify_page_saved)
qed

theorem persist_writes_all_columns_witness:
  "load example_fs = Inr example_loaded \<and>
   list_all (\<lambda>r. Breach_binary r = breach_dict (Breachornot r)) example_loaded \<and>
   ''P2'' \<in> set (map ID example_table) \<and>
   header (to_csv example_table) = source_columns @ [''Breach_binary''] \<and>
   DATA_FILE (fst (snd (delete_page ''P2'' True example_table example_fs))) =
     Some (to_csv (fst (delete_page ''P2'' True example_table example_fs)))"
proof -
  have m: "''P2'' \<in> set (map ID example_table)"
    by (simp add: example_table_def add_Breach_binary_def example_patient_def)
  note t = persist_writes_all_columns
    [of example_fs example_loaded example_table example_fs "''P2''" example_form]
  from t example_load
  have "\<forall>r\<in>set example_loaded. Breach_binary r = breach_dict (Breachornot r)"
    by blast
  then have h: "list_all (\<lambda>r. Breach_binary r = breach_dict (Breachornot r)) example_loaded"
    by (simp add: list_all_iff)
  from t m have "header (to_csv example_table) = source_columns @ [''Breach_binary'']"
    "DATA_FILE (fst (snd (delete_page ''P2'' True example_table example_fs))) =
     Some (to_csv (fst (delete_page ''P2'' True example_table example_fs)))"
    by blast+
  with example_load h m show ?thesis
    by simp
qed

text \<open>
  C5 as stated fails: after the update of a record, and after a deletion, the header of
  the data file ends with \<open>Breach_binary\<close>.
\<close>

theorem persisted_columns_counterexample:
  "modify_page ''P1'' (Some example_form) example_loaded example_fs =
     Inr (example_stale, log_action (Modified ''P1'') (save_safely example_stale example_fs),
          Some (Success ''Patient record updated successfully.'')) \<and>
   map_option header
     (DATA_FILE (log_action (Modified ''P1'') (save_safely example_stale example_fs))) =
     Some [''ID'', ''Age'', ''LoS'', ''noofinvestigation'', ''nooftreatment'', ''noofpatients'',
           ''Breachornot'', ''Breach_binary''] \<and>
   map_option header (DATA_FILE (fst (snd (delete_page ''P2'' True example_table example_fs)))) =
     Some [''ID'', ''Age'', ''LoS'', ''noofinvestigation'', ''nooftreatment'', ''noofpatients'',
           ''Breachornot'', ''Breach_binary'']"
proof -
  have "''P2'' \<in> set (map ID example_table)"
    by (simp add: example_table_def add_Breach_binary_def example_patient_def)
  then have "DATA_FILE (fst (snd (delete_page ''P2'' True example_table example_fs))) =
     Some (to_csv (filter (\<lambda>r. ID r \<noteq> ''P2'') example_table))"
    by (simp add: delete_page_True log_action_def)
  then show ?thesis
    using example_modify
    by (simp add: log_action_def DATA_FILE_save_safely to_csv_def df_columns_def source_columns_def)
qed




end
